theory Spec2Isabelle
  imports
    Main
    "HOL-Library.Word"
    "HOL-Library.Multiset"
    "HOL-Library.Char_ord"
    "HOL-Library.List_Lexorder"
begin

unbundle bit_operations_syntax

section \<open>The caching proxy of \<open>agentica/cache.py\<close>\<close>

text \<open>
  The development embeds \<open>src/agentica/cache.py\<close>: the key deriver
  (\<open>CacheHandler._hash_request\<close>), the persistent store (\<open>_get_cached_response\<close>,
  \<open>_save_response\<close>), the file overlay (\<open>_get_file_cached_response\<close>,
  \<open>_save_file_cached_response\<close>), the forwarder (\<open>_forward_request\<close>), the request
  handler (\<open>handle_request\<close>), the constructor (\<open>__init__\<close>) and the client hook
  (\<open>RequestCache.hook_openai\<close>).

  Conventions. A Python \<open>str\<close> is a \<open>string\<close> whose characters are the code points
  below 256; the text decoded from a request body, which may hold any code point, is a
  list of code points (\<open>nat list\<close>). \<open>bytes\<close> is a list of 8-bit words. A Python
  \<open>dict\<close> from \<open>str\<close> to \<open>str\<close> is an association list in insertion order whose keys
  are distinct; the headers of an aiohttp message (a case-insensitive multidict) are the
  list of its (name, value) pairs in order, names repeated where the message repeats them.
\<close>

subsection \<open>Strings, bytes and dictionaries of the Python runtime\<close>

type_synonym byte = "8 word"
type_synonym bytes = "byte list"
type_synonym codepoints = "nat list"
type_synonym pydict = "(string \<times> string) list"
type_synonym multidict = "(string \<times> string) list"

text \<open>\<open>str.lower()\<close> on code points below 256: the ASCII capitals and the Latin-1
  capitals (all of U+00C0..U+00DE but the multiplication sign U+00D7) move by 32.\<close>

definition lower_char :: "char \<Rightarrow> char" where
  "lower_char c =
     (let n = (of_char c :: nat)
      in if (65 \<le> n \<and> n \<le> 90) \<or> (192 \<le> n \<and> n \<le> 222 \<and> n \<noteq> 215)
         then char_of (n + 32) else c)"

definition lower :: "string \<Rightarrow> string" where
  "lower s = map lower_char s"

text \<open>\<open>str(n)\<close> for a natural number: its decimal digits.\<close>

definition digit_char :: "nat \<Rightarrow> char" where
  "digit_char d = char_of (48 + d)"

fun str_of_nat :: "nat \<Rightarrow> string" where
  "str_of_nat n =
     (if n < 10 then [digit_char n] else str_of_nat (n div 10) @ [digit_char (n mod 10)])"

declare str_of_nat.simps [simp del]

text \<open>\<open>s.rstrip('/')\<close>: the trailing slashes go.\<close>

definition rstrip_slash :: "string \<Rightarrow> string" where
  "rstrip_slash s = rev (dropWhile (\<lambda>c. c = CHR ''/'') (rev s))"

text \<open>\<open>d[k] = v\<close> on a dict: the value is replaced where the key stands, a new key goes
  to the end.\<close>

fun dict_set :: "string \<Rightarrow> string \<Rightarrow> pydict \<Rightarrow> pydict" where
  "dict_set k v [] = [(k, v)]"
| "dict_set k v ((k', v') # d) =
     (if k' = k then (k, v) # d else (k', v') # dict_set k v d)"

text \<open>A dict comprehension \<open>{k: v for k, v in items}\<close>: the items are stored one by
  one, a later item of the same key replacing the value of the earlier one.\<close>

definition dict_of_items :: "(string \<times> string) list \<Rightarrow> pydict" where
  "dict_of_items items = foldl (\<lambda>d (k, v). dict_set k v d) [] items"

text \<open>The multidict of aiohttp looks a name up case-insensitively and answers its first
  value (\<open>get\<close>, \<open>__getitem__\<close>).\<close>

fun md_get :: "multidict \<Rightarrow> string \<Rightarrow> string option" where
  "md_get [] name = None"
| "md_get ((k, v) # h) name = (if lower k = lower name then Some v else md_get h name)"

text \<open>\<open>dict(headers)\<close> of a multidict walks \<open>headers.keys()\<close> (every name, repeated
  ones too) and stores \<open>headers[name]\<close>, the first value of the name.\<close>

definition dict_of_multidict :: "multidict \<Rightarrow> pydict" where
  "dict_of_multidict h =
     foldl (\<lambda>d k. case md_get h k of None \<Rightarrow> d | Some v \<Rightarrow> dict_set k v d) [] (map fst h)"

subsection \<open>The library functions of the key deriver\<close>

text \<open>\<open>bytes.decode('utf-8', errors='ignore')\<close>, as CPython decodes: an ill-formed
  sequence is dropped up to the byte that breaks it (an invalid start byte alone, a lead
  byte with the continuation bytes accepted so far), a sequence cut off by the end of the
  input is dropped whole. Overlong forms, surrogates and code points above U+10FFFF are
  ill-formed.\<close>

definition is_cont :: "nat \<Rightarrow> bool" where
  "is_cont b = (128 \<le> b \<and> b < 192)"

fun utf8_ignore :: "nat list \<Rightarrow> codepoints" where
  "utf8_ignore [] = []"
| "utf8_ignore (c # bs) =
     (if c < 128 then c # utf8_ignore bs
      else if c < 194 then utf8_ignore bs
      else if c < 224 then
        (case bs of
           [] \<Rightarrow> []
         | c2 # r2 \<Rightarrow>
             if is_cont c2 then ((c - 192) * 64 + (c2 - 128)) # utf8_ignore r2
             else utf8_ignore bs)
      else if c < 240 then
        (case bs of
           [] \<Rightarrow> []
         | c2 # r2 \<Rightarrow>
             if \<not> is_cont c2 \<or> (c = 224 \<and> c2 < 160) \<or> (c = 237 \<and> 160 \<le> c2)
             then utf8_ignore bs
             else
               (case r2 of
                  [] \<Rightarrow> []
                | c3 # r3 \<Rightarrow>
                    if is_cont c3
                    then ((c - 224) * 4096 + (c2 - 128) * 64 + (c3 - 128)) # utf8_ignore r3
                    else utf8_ignore r2))
      else if c < 245 then
        (case bs of
           [] \<Rightarrow> []
         | c2 # r2 \<Rightarrow>
             if \<not> is_cont c2 \<or> (c = 240 \<and> c2 < 144) \<or> (c = 244 \<and> 144 \<le> c2)
             then utf8_ignore bs
             else
               (case r2 of
                  [] \<Rightarrow> []
                | c3 # r3 \<Rightarrow>
                    if \<not> is_cont c3 then utf8_ignore r2
                    else
                      (case r3 of
                         [] \<Rightarrow> []
                       | c4 # r4 \<Rightarrow>
                           if is_cont c4
                           then ((c - 240) * 262144 + (c2 - 128) * 4096
                                   + (c3 - 128) * 64 + (c4 - 128)) # utf8_ignore r4
                           else utf8_ignore r3)))
      else utf8_ignore bs)"

definition decode_utf8_ignore :: "bytes \<Rightarrow> codepoints" where
  "decode_utf8_ignore b = utf8_ignore (map unat b)"

text \<open>\<open>json.dumps\<close> writes a string between double quotes and, with the default
  \<open>ensure_ascii\<close>, escapes the quote, the backslash and every code point outside
  \<open>' '..'~'\<close>: the short escapes for backspace, form feed, newline, carriage return and
  tab, four lowercase hex digits after \<open>\u\<close> otherwise, a surrogate pair above U+FFFF.\<close>

definition hex_digit :: "nat \<Rightarrow> char" where
  "hex_digit d = (if d < 10 then char_of (48 + d) else char_of (87 + d))"

definition hex4 :: "nat \<Rightarrow> string" where
  "hex4 n = [hex_digit (n div 4096 mod 16), hex_digit (n div 256 mod 16),
             hex_digit (n div 16 mod 16), hex_digit (n mod 16)]"

definition backslash :: char where
  "backslash = CHR 0x5C"

definition dquote :: char where
  "dquote = CHR 0x22"

definition json_escape_cp :: "nat \<Rightarrow> string" where
  "json_escape_cp n =
     (if n = 34 then [backslash, dquote]
      else if n = 92 then [backslash, backslash]
      else if 32 \<le> n \<and> n \<le> 126 then [char_of n]
      else if n = 8 then [backslash, CHR ''b'']
      else if n = 12 then [backslash, CHR ''f'']
      else if n = 10 then [backslash, CHR ''n'']
      else if n = 13 then [backslash, CHR ''r'']
      else if n = 9 then [backslash, CHR ''t'']
      else if n < 65536 then [backslash, CHR ''u''] @ hex4 n
      else [backslash, CHR ''u''] @ hex4 (55296 + (n - 65536) div 1024 mod 1024)
           @ [backslash, CHR ''u''] @ hex4 (56320 + (n - 65536) mod 1024))"

definition json_string :: "codepoints \<Rightarrow> string" where
  "json_string s = [dquote] @ concat (map json_escape_cp s) @ [dquote]"

definition codepoints_of :: "string \<Rightarrow> codepoints" where
  "codepoints_of s = map of_char s"

fun join_items :: "string list \<Rightarrow> string" where
  "join_items [] = []"
| "join_items [x] = x"
| "join_items (x # y # xs) = x @ '', '' @ join_items (y # xs)"

text \<open>\<open>json.dumps(d, sort_keys=True)\<close> for a dict from \<open>str\<close> to \<open>str\<close>: the items in
  the order of their keys (code point by code point), \<open>", "\<close> between items and
  \<open>": "\<close> between a key and its value.\<close>

definition json_item :: "string \<times> codepoints \<Rightarrow> string" where
  "json_item kv = json_string (codepoints_of (fst kv)) @ '': '' @ json_string (snd kv)"

definition json_dumps_sorted :: "(string \<times> codepoints) list \<Rightarrow> string" where
  "json_dumps_sorted d = ''{'' @ join_items (map json_item (sort_key fst d)) @ ''}''"

subsubsection \<open>SHA-256 (\<open>hashlib.sha256(...).hexdigest()\<close>)\<close>

type_synonym w32 = "32 word"

text \<open>The round constants and the initial hash value, in decimal.\<close>

definition K256 :: "w32 list" where
  "K256 =
    [1116352408, 1899447441, 3049323471, 3921009573, 961987163, 1508970993,
     2453635748, 2870763221, 3624381080, 310598401, 607225278, 1426881987,
     1925078388, 2162078206, 2614888103, 3248222580, 3835390401, 4022224774,
     264347078, 604807628, 770255983, 1249150122, 1555081692, 1996064986,
     2554220882, 2821834349, 2952996808, 3210313671, 3336571891, 3584528711,
     113926993, 338241895, 666307205, 773529912, 1294757372, 1396182291,
     1695183700, 1986661051, 2177026350, 2456956037, 2730485921, 2820302411,
     3259730800, 3345764771, 3516065817, 3600352804, 4094571909, 275423344,
     430227734, 506948616, 659060556, 883997877, 958139571, 1322822218,
     1537002063, 1747873779, 1955562222, 2024104815, 2227730452, 2361852424,
     2428436474, 2756734187, 3204031479, 3329325298]"

definition H256 :: "w32 list" where
  "H256 = [1779033703, 3144134277, 1013904242, 2773480762,
           1359893119, 2600822924, 528734635, 1541459225]"

definition rotr :: "nat \<Rightarrow> w32 \<Rightarrow> w32" where
  "rotr n x = drop_bit n x OR push_bit (32 - n) x"

definition Ch :: "w32 \<Rightarrow> w32 \<Rightarrow> w32 \<Rightarrow> w32" where
  "Ch x y z = (x AND y) XOR (NOT x AND z)"

definition Maj :: "w32 \<Rightarrow> w32 \<Rightarrow> w32 \<Rightarrow> w32" where
  "Maj x y z = (x AND y) XOR (x AND z) XOR (y AND z)"

definition bsig0 :: "w32 \<Rightarrow> w32" where
  "bsig0 x = rotr 2 x XOR rotr 13 x XOR rotr 22 x"

definition bsig1 :: "w32 \<Rightarrow> w32" where
  "bsig1 x = rotr 6 x XOR rotr 11 x XOR rotr 25 x"

definition ssig0 :: "w32 \<Rightarrow> w32" where
  "ssig0 x = rotr 7 x XOR rotr 18 x XOR drop_bit 3 x"

definition ssig1 :: "w32 \<Rightarrow> w32" where
  "ssig1 x = rotr 17 x XOR rotr 19 x XOR drop_bit 10 x"

definition be64 :: "64 word \<Rightarrow> bytes" where
  "be64 n = map (\<lambda>i. ucast (drop_bit (8 * (7 - i)) n)) [0..<8]"

definition sha256_pad :: "bytes \<Rightarrow> bytes" where
  "sha256_pad m =
     m @ [0x80] @ replicate ((64 - (length m + 9) mod 64) mod 64) 0
       @ be64 (8 * of_nat (length m))"

fun be32_words :: "bytes \<Rightarrow> w32 list" where
  "be32_words (a # b # c # d # r) =
     (push_bit 24 (ucast a) OR push_bit 16 (ucast b) OR push_bit 8 (ucast c) OR ucast d)
       # be32_words r"
| "be32_words r = []"

primrec blocks64 :: "nat \<Rightarrow> bytes \<Rightarrow> bytes list" where
  "blocks64 0 m = []"
| "blocks64 (Suc n) m = take 64 m # blocks64 n (drop 64 m)"

primrec schedule :: "nat \<Rightarrow> w32 list \<Rightarrow> w32 list" where
  "schedule 0 w = w"
| "schedule (Suc n) w =
     (let t = length w
      in schedule n
           (w @ [ssig1 (w ! (t - 2)) + w ! (t - 7) + ssig0 (w ! (t - 15)) + w ! (t - 16)]))"

fun sha_round :: "w32 list \<Rightarrow> w32 \<times> w32 \<Rightarrow> w32 list" where
  "sha_round [a, b, c, d, e, f, g, h] (k, w) =
     (let t1 = h + bsig1 e + Ch e f g + k + w;
          t2 = bsig0 a + Maj a b c
      in [t1 + t2, a, b, c, d + t1, e, f, g])"
| "sha_round s kw = s"

definition compress :: "w32 list \<Rightarrow> bytes \<Rightarrow> w32 list" where
  "compress h block =
     map2 (+) h (foldl sha_round h (zip K256 (schedule 48 (be32_words block))))"

definition hex_byte :: "nat \<Rightarrow> string" where
  "hex_byte b = [hex_digit (b div 16), hex_digit (b mod 16)]"

definition hex_w32 :: "w32 \<Rightarrow> string" where
  "hex_w32 w =
     concat (map (\<lambda>i. hex_byte (unat (ucast (drop_bit (8 * (3 - i)) w) :: byte))) [0..<4])"

definition sha256_hexdigest :: "bytes \<Rightarrow> string" where
  "sha256_hexdigest m =
     (let p = sha256_pad m
      in concat (map hex_w32 (foldl compress H256 (blocks64 (length p div 64) p))))"

text \<open>\<open>str.encode()\<close> of a string of ASCII characters, which is what \<open>json.dumps\<close>
  returns: one byte for each character.\<close>

definition encode_ascii :: "string \<Rightarrow> bytes" where
  "encode_ascii s = map (\<lambda>c. of_nat (of_char c)) s"

subsection \<open>The key deriver: \<open>CacheHandler._hash_request\<close>\<close>

text \<open>The dict \<open>request_data\<close> of the source, its four fields in the order the source
  writes them; the body is decoded only when it is not empty.\<close>

definition request_data :: "string \<Rightarrow> string \<Rightarrow> bytes \<Rightarrow> string \<Rightarrow> (string \<times> codepoints) list" where
  "request_data method path body redirect_url =
     [(''method'', codepoints_of method),
      (''path'', codepoints_of path),
      (''body'', if body \<noteq> [] then decode_utf8_ignore body else []),
      (''redirect_url'', codepoints_of redirect_url)]"

definition hash_fields :: "(string \<times> codepoints) list \<Rightarrow> string \<times> string" where
  "hash_fields d =
     (let request_str = json_dumps_sorted d
      in (sha256_hexdigest (encode_ascii request_str), request_str))"

definition hash_request :: "string \<Rightarrow> string \<Rightarrow> bytes \<Rightarrow> string \<Rightarrow> string \<times> string" where
  "hash_request method path body redirect_url =
     hash_fields (request_data method path body redirect_url)"

subsection \<open>The data of the proxy\<close>

text \<open>What a store answers: the tuple \<open>(status_code, headers, body)\<close> of the source.\<close>

type_synonym cached = "int \<times> pydict \<times> bytes"

text \<open>A row of the table \<open>cache\<close>. The column \<open>headers\<close> holds \<open>json.dumps(headers)\<close>
  and is read back with \<open>json.loads\<close>, which returns the dict that was written; the
  row keeps the dict. \<open>created_at\<close> is the time of the insertion.\<close>

record row =
  row_key :: string
  row_status :: int
  row_headers :: pydict
  row_body :: bytes
  created_at :: nat

datatype error =
    ValueError string
  | RuntimeError string
  | AssertionError string
  | TimeoutError string
  | TypeError string
  | OSError string
  | ClientError

text \<open>A file of the overlay directory, by what reading it does: the document
  \<open>_save_file_cached_response\<close> writes (status code, headers, body, timestamp; the body
  goes through base64 on the way in and out); a file that \<open>json.load\<close>, the field lookups
  or \<open>b64decode\<close> reject with one of the exceptions the source catches
  (\<open>JSONDecodeError\<close>, \<open>KeyError\<close>, \<open>ValueError\<close>), with the text of the exception; or a
  file whose reading raises an exception the source does not catch (\<open>TypeError\<close> when the
  document is not an object or its body is not a string, \<open>OSError\<close> when the file cannot
  be opened), with that exception.\<close>

datatype overlay_file = Snapshot int pydict bytes nat | Malformed string | Faulty error

record upstream_request =
  up_method :: string
  up_url :: string
  up_headers :: pydict
  up_data :: bytes

record upstream_response =
  up_status :: int
  up_resp_headers :: multidict
  up_chunks :: "bytes list"

datatype event =
    KeyDerived string
  | OverlayRead string
  | StoreRead string
  | Forwarded upstream_request
  | StoreWrite string
  | OverlayWrite string

record request =
  req_method :: string
  path_qs :: string
  req_headers :: multidict
  req_body :: bytes

text \<open>The world a handler runs in: the clock, the environment variables, the table of
  the SQLite file, the files of the overlay directory, the upstream servers (\<open>None\<close>
  when the transport fails and \<open>session.request\<close> raises), what \<open>mkdir\<close> and opening a
  file for writing or appending raise, if anything, the lines printed, the lines appended
  to the file \<open>$GITHUB_OUTPUT\<close> names, and the trace of the steps taken.
  \<open>prepare_headers\<close> is what aiohttp's \<open>StreamResponse.prepare\<close> makes of the headers set
  on a stream response of a status, for a request: it adds headers of its own (for an
  HTTP/1.1 request and a status with a body \<open>Transfer-Encoding: chunked\<close>, and
  \<open>Content-Type\<close>, \<open>Date\<close> and \<open>Server\<close> where they are not set). It belongs to the
  library, so it is a parameter here.\<close>

record world =
  clock :: nat
  environ :: "string \<rightharpoonup> string"
  table :: "row list"
  files :: "string \<rightharpoonup> overlay_file"
  upstream :: "upstream_request \<Rightarrow> upstream_response option"
  prepare_headers :: "request \<Rightarrow> int \<Rightarrow> multidict \<Rightarrow> multidict"
  mkdir_error :: "bool \<Rightarrow> string option"
  write_error :: "string \<Rightarrow> string option"
  stdout :: "string list"
  github_output :: "string list"
  trace :: "event list"

text \<open>The handler object: whether \<open>self.db\<close> is a connection (\<open>initialize\<close> was
  called) and \<open>self.file_cache_mode\<close>.\<close>

record handler =
  connected :: bool
  file_cache_mode :: string

text \<open>A response handed to the caller. A \<open>web.Response\<close> is returned as the handler
  constructs it, with the headers the handler passes; a \<open>web.StreamResponse\<close> has been
  prepared and written chunk by chunk when it is returned.\<close>

record response =
  status :: int
  headers :: multidict
  body :: bytes

datatype reply = Response response | StreamResponse response

definition REDIRECT_HEADER :: string where
  "REDIRECT_HEADER = ''X-Cache-Redirect-To''"

definition FILE_CACHE_DIR :: string where
  "FILE_CACHE_DIR = ''tests/file_cache''"

definition framing_headers :: "string list" where
  "framing_headers = [''transfer-encoding'', ''content-length'', ''content-encoding'']"

definition log_event :: "event \<Rightarrow> world \<Rightarrow> world" where
  "log_event e w = w\<lparr>trace := trace w @ [e]\<rparr>"

definition print_line :: "string \<Rightarrow> world \<Rightarrow> world" where
  "print_line l w = w\<lparr>stdout := stdout w @ [l]\<rparr>"

subsection \<open>\<open>CacheHandler.__init__\<close> and \<open>initialize\<close>\<close>

definition getenv :: "world \<Rightarrow> string \<Rightarrow> string \<Rightarrow> string" where
  "getenv w name dflt = (case environ w name of None \<Rightarrow> dflt | Some v \<Rightarrow> v)"

definition init_handler :: "world \<Rightarrow> error + handler" where
  "init_handler w =
     (let mode = lower (getenv w ''FILE_CACHE'' [])
      in if mode \<notin> set [[], ''read'', ''write'']
         then Inl (ValueError (''Invalid FILE_CACHE value: '' @ mode
                     @ ''. Must be '' @ [CHR 0x27, CHR 0x27] @ '', ''
                     @ [CHR 0x27] @ ''read'' @ [CHR 0x27] @ '', or ''
                     @ [CHR 0x27] @ ''write'' @ [CHR 0x27]))
         else
           (case mkdir_error w False of
              Some e \<Rightarrow> Inl (OSError e)
            | None \<Rightarrow> Inr \<lparr>connected = False, file_cache_mode = mode\<rparr>))"

definition initialize :: "handler \<Rightarrow> handler" where
  "initialize h = h\<lparr>connected := True\<rparr>"

subsection \<open>The persistent store\<close>

definition get_cached_response :: "handler \<Rightarrow> string \<Rightarrow> world \<Rightarrow> cached option \<times> world" where
  "get_cached_response h cache_key w =
     (if \<not> connected h then (None, w)
      else
        (case find (\<lambda>r. row_key r = cache_key) (table w) of
           Some r \<Rightarrow> (Some (row_status r, row_headers r, row_body r),
                      log_event (StoreRead cache_key) w)
         | None \<Rightarrow> (None, log_event (StoreRead cache_key) w)))"

text \<open>\<open>INSERT OR REPLACE\<close>: the row of the key, if there is one, is deleted and the new
  row is inserted.\<close>

definition save_response :: "handler \<Rightarrow> string \<Rightarrow> int \<Rightarrow> pydict \<Rightarrow> bytes \<Rightarrow> world \<Rightarrow> world" where
  "save_response h cache_key status_code hdrs bdy w =
     (if \<not> connected h then w
      else log_event (StoreWrite cache_key)
             (w\<lparr>table := filter (\<lambda>r. row_key r \<noteq> cache_key) (table w)
                    @ [\<lparr>row_key = cache_key, row_status = status_code, row_headers = hdrs,
                        row_body = bdy, created_at = clock w\<rparr>]\<rparr>))"

subsection \<open>The file overlay\<close>

definition get_file_cache_path :: "string \<Rightarrow> string" where
  "get_file_cache_path cache_key = FILE_CACHE_DIR @ ''/'' @ cache_key @ ''.json''"

text \<open>\<open>_get_file_cached_response\<close>: no file and a file rejected by a caught exception
  are both a miss (\<open>None\<close>), the latter printed; an exception that is not caught leaves
  the function.\<close>

definition get_file_cached_response :: "string \<Rightarrow> world \<Rightarrow> (error + cached option) \<times> world" where
  "get_file_cached_response cache_key w =
     (let file_path = get_file_cache_path cache_key;
          w1 = log_event (OverlayRead cache_key) w
      in case files w file_path of
           None \<Rightarrow> (Inr None, w1)
         | Some (Snapshot status_code hdrs bdy ts) \<Rightarrow>
             (Inr (Some (status_code, hdrs, bdy)), w1)
         | Some (Malformed e) \<Rightarrow>
             (Inr None,
              print_line (''Error reading file cache '' @ file_path @ '': '' @ e) w1)
         | Some (Faulty e) \<Rightarrow> (Inl e, w1))"

text \<open>The \<open>mkdir\<close> of the directory stands before the \<open>try\<close>: what it raises goes to
  the caller. What opening or writing the file raises is caught and printed; the file is
  then taken to be as it was.\<close>

definition save_file_cached_response :: "string \<Rightarrow> int \<Rightarrow> pydict \<Rightarrow> bytes \<Rightarrow> world \<Rightarrow> error + world" where
  "save_file_cached_response cache_key status_code hdrs bdy w =
     (let file_path = get_file_cache_path cache_key
      in case mkdir_error w True of
           Some e \<Rightarrow> Inl (OSError e)
         | None \<Rightarrow>
             (case write_error w file_path of
                Some e \<Rightarrow>
                  Inr (print_line (''Error writing file cache '' @ file_path @ '': '' @ e) w)
              | None \<Rightarrow>
                  Inr (log_event (OverlayWrite cache_key)
                         (w\<lparr>files := (files w)(file_path \<mapsto>
                                Snapshot status_code hdrs bdy (clock w))\<rparr>))))"

subsection \<open>The forwarder: \<open>_forward_request\<close>\<close>

text \<open>\<open>headers[key] = value\<close> on the headers of the stream response, a
  case-insensitive multidict: the first item of the name is replaced, its other items go,
  a new name goes to the end.\<close>

fun md_set :: "string \<Rightarrow> string \<Rightarrow> multidict \<Rightarrow> multidict" where
  "md_set k v [] = [(k, v)]"
| "md_set k v ((k', v') # h) =
     (if lower k' = lower k
      then (k, v) # filter (\<lambda>kv. lower (fst kv) \<noteq> lower k) h
      else (k', v') # md_set k v h)"

definition strip_framing :: "(string \<times> string) list \<Rightarrow> pydict" where
  "strip_framing items =
     dict_of_items (filter (\<lambda>kv. lower (fst kv) \<notin> set framing_headers) items)"

text \<open>The request sent upstream: the target without its trailing slashes, then the
  path; the headers of the caller but \<open>host\<close> and the routing header; the body.\<close>

definition outbound :: "string \<Rightarrow> string \<Rightarrow> pydict \<Rightarrow> bytes \<Rightarrow> string \<Rightarrow> upstream_request" where
  "outbound method path hdrs bdy redirect_url =
     \<lparr>up_method = method,
      up_url = rstrip_slash redirect_url @ path,
      up_headers =
        filter (\<lambda>kv. lower (fst kv) \<notin> set [''host'', ''x-cache-redirect-to'']) hdrs,
      up_data = bdy\<rparr>"

text \<open>The headers the forwarder sets on the stream response: the cleaned headers of
  upstream, one by one.\<close>

definition copied_headers :: "upstream_response \<Rightarrow> multidict" where
  "copied_headers r =
     foldl (\<lambda>h kv. md_set (fst kv) (snd kv) h) [] (strip_framing (up_resp_headers r))"

text \<open>The stream response after the loop over the chunks: the status of upstream, the
  headers as \<open>prepare\<close> leaves them, every chunk written.\<close>

definition relayed :: "world \<Rightarrow> request \<Rightarrow> upstream_response \<Rightarrow> response" where
  "relayed w request r =
     \<lparr>status = up_status r,
      headers = prepare_headers w request (up_status r) (copied_headers r),
      body = concat (up_chunks r)\<rparr>"

text \<open>What \<open>_forward_request\<close> returns for the cache: the status, \<open>dict(response.headers)\<close>
  and the collected body.\<close>

definition collected :: "upstream_response \<Rightarrow> cached" where
  "collected r = (up_status r, dict_of_multidict (up_resp_headers r), concat (up_chunks r))"

definition forward_request ::
  "string \<Rightarrow> string \<Rightarrow> pydict \<Rightarrow> bytes \<Rightarrow> string \<Rightarrow> request \<Rightarrow> world
     \<Rightarrow> (error + response \<times> cached) \<times> world" where
  "forward_request method path hdrs bdy redirect_url request w =
     (let rq = outbound method path hdrs bdy redirect_url;
          w1 = log_event (Forwarded rq) w
      in case upstream w rq of
           None \<Rightarrow> (Inl ClientError, w1)
         | Some r \<Rightarrow> (Inr (relayed w request r, collected r), w1))"

subsection \<open>The request handler: \<open>handle_request\<close>\<close>

text \<open>The response of a cache hit, the same in both modes.\<close>

definition replay :: "cached \<Rightarrow> reply" where
  "replay c =
     (case c of (status_code, hdrs, response_body) \<Rightarrow>
        Response \<lparr>status = status_code,
                  headers = dict_set ''Content-Length'' (str_of_nat (length response_body))
                              (strip_framing hdrs),
                  body = response_body\<rparr>)"

definition miss_message :: "string \<Rightarrow> string \<Rightarrow> string" where
  "miss_message cache_key cache_key_str =
     ''Cache miss in read mode for key: '' @ cache_key @ [CHR 0x0A, CHR 0x0A] @ cache_key_str"

text \<open>The miss of read-only mode: the message is appended to the file \<open>$GITHUB_OUTPUT\<close>
  names, when the variable is set and not empty, and then raised; what opening that file
  raises comes before the \<open>RuntimeError\<close>.\<close>

definition report_miss :: "string \<Rightarrow> world \<Rightarrow> (error + reply) \<times> world" where
  "report_miss message w =
     (case environ w ''GITHUB_OUTPUT'' of
        None \<Rightarrow> (Inl (RuntimeError message), w)
      | Some p \<Rightarrow>
          if p = [] then (Inl (RuntimeError message), w)
          else
            (case write_error w p of
               Some e \<Rightarrow> (Inl (OSError e), w)
             | None \<Rightarrow>
                 (Inl (RuntimeError message),
                  w\<lparr>github_output := github_output w @ [message]\<rparr>)))"

definition bad_request :: reply where
  "bad_request =
     Response \<lparr>status = 400, headers = [],
               body = encode_ascii ''Missing X-Cache-Redirect-To header''\<rparr>"

definition handle_request :: "handler \<Rightarrow> request \<Rightarrow> world \<Rightarrow> (error + reply) \<times> world" where
  "handle_request h rq w =
     (case md_get (req_headers rq) ''X-Cache-Redirect-To'' of
        None \<Rightarrow> (Inr bad_request, w)
      | Some redirect_url \<Rightarrow>
          if redirect_url = [] then (Inr bad_request, w)
          else
            (case hash_request (req_method rq) (path_qs rq) (req_body rq) redirect_url of
               (cache_key, cache_key_str) \<Rightarrow>
                 (let w1 = log_event (KeyDerived cache_key) w
                  in if file_cache_mode h = ''read'' then
                       (case get_file_cached_response cache_key w1 of
                          (Inl e, w2) \<Rightarrow> (Inl e, w2)
                        | (Inr (Some c), w2) \<Rightarrow> (Inr (replay c), w2)
                        | (Inr None, w2) \<Rightarrow>
                            report_miss (miss_message cache_key cache_key_str) w2)
                     else
                       (case get_cached_response h cache_key w1 of
                          (Some c, w2) \<Rightarrow> (Inr (replay c), w2)
                        | (None, w2) \<Rightarrow>
                            (case forward_request (req_method rq) (path_qs rq)
                                    (dict_of_multidict (req_headers rq)) (req_body rq)
                                    redirect_url rq w2 of
                               (Inl e, w3) \<Rightarrow> (Inl e, w3)
                             | (Inr (stream_response, status_code, hdrs, response_body), w3) \<Rightarrow>
                                 if 200 \<le> status_code \<and> status_code < 300 then
                                   (let w4 = save_response h cache_key status_code hdrs
                                               response_body w3
                                    in if file_cache_mode h = ''write'' then
                                         (case save_file_cached_response cache_key
                                                 status_code hdrs response_body w4 of
                                            Inl e \<Rightarrow> (Inl e, w4)
                                          | Inr w5 \<Rightarrow> (Inr (StreamResponse stream_response), w5))
                                       else (Inr (StreamResponse stream_response), w4))
                                 else (Inr (StreamResponse stream_response), w3))))))"

subsection \<open>The client hook: \<open>RequestCache\<close>\<close>

text \<open>The part of an \<open>AsyncOpenAI\<close> client the hook touches: \<open>base_url\<close>,
  \<open>_custom_headers\<close>, and whether the latter is a \<open>dict\<close>.\<close>

record client =
  base_url :: string
  custom_headers :: pydict
  headers_is_dict :: bool

text \<open>A \<open>RequestCache\<close> holds the port of its server once it has been started.\<close>

record request_cache =
  port :: "nat option"

text \<open>The machine the hook runs on: the free port the socket bound to port 0 is given,
  and whether the server process accepts a connection before \<open>_wait_for_server\<close> gives
  up.\<close>

record host =
  free_port :: nat
  server_ready :: bool

definition proxy_url :: "nat \<Rightarrow> string" where
  "proxy_url p = ''http://localhost:'' @ str_of_nat p @ ''/''"

text \<open>\<open>__start_idempotently\<close>: the port is stored before the server is awaited, so it
  stays set when the wait times out.\<close>

definition start_idempotently :: "host \<Rightarrow> request_cache \<Rightarrow> error option \<times> request_cache" where
  "start_idempotently m rc =
     (case port rc of
        Some p \<Rightarrow> (None, rc)
      | None \<Rightarrow>
          (let rc1 = rc\<lparr>port := Some (free_port m)\<rparr>
           in if server_ready m then (None, rc1)
              else (Some (TimeoutError (''Server did not start on port ''
                            @ str_of_nat (free_port m) @ '' within 5.0 seconds'')), rc1)))"

definition hook_openai :: "host \<Rightarrow> request_cache \<Rightarrow> client \<Rightarrow> error option \<times> request_cache \<times> client" where
  "hook_openai m rc c =
     (case start_idempotently m rc of
        (Some e, rc1) \<Rightarrow> (Some e, rc1, c)
      | (None, rc1) \<Rightarrow>
          (case port rc1 of
             None \<Rightarrow> (Some (AssertionError (''Server start should'' @ [CHR 0x27]
                      @ ''ve set port number'')), rc1, c)
           | Some p \<Rightarrow>
               if REDIRECT_HEADER \<in> set (map fst (custom_headers c)) then
                 (if base_url c = proxy_url p then (None, rc1, c)
                  else (Some (AssertionError []), rc1, c))
               else if \<not> headers_is_dict c then
                 (Some (AssertionError ''Generic mappings not supported''), rc1, c)
               else
                 (None, rc1,
                  c\<lparr>custom_headers := dict_set REDIRECT_HEADER (base_url c) (custom_headers c),
                    base_url := proxy_url p\<rparr>)))"

subsection \<open>Concrete worlds for the examples\<close>

text \<open>An example of what \<open>prepare\<close> does, for an HTTP/1.1 request and a status with a
  body: chunked transfer encoding, and defaults for the headers that are not set.\<close>

definition md_setdefault :: "string \<Rightarrow> string \<Rightarrow> multidict \<Rightarrow> multidict" where
  "md_setdefault k v h = (case md_get h k of None \<Rightarrow> h @ [(k, v)] | Some v' \<Rightarrow> h)"

definition prepare0 :: "request \<Rightarrow> int \<Rightarrow> multidict \<Rightarrow> multidict" where
  "prepare0 request st h =
     md_setdefault ''Server'' ''Python/3.12 aiohttp/3.9.5''
       (md_setdefault ''Date'' ''Thu, 01 Jan 1970 00:00:00 GMT''
          (md_setdefault ''Content-Type'' ''application/octet-stream''
             (md_set ''Transfer-Encoding'' ''chunked'' h)))"

definition world0 :: world where
  "world0 =
     \<lparr>clock = 0, environ = Map.empty, table = [], files = Map.empty,
      upstream = (\<lambda>rq. None), prepare_headers = prepare0,
      mkdir_error = (\<lambda>parents. None),
      write_error = (\<lambda>path. None), stdout = [], github_output = [], trace = []\<rparr>"

definition handler0 :: handler where
  "handler0 = \<lparr>connected = True, file_cache_mode = []\<rparr>"

definition request0 :: request where
  "request0 =
     \<lparr>req_method = ''POST'', path_qs = ''/v1/thing'',
      req_headers = [(''Host'', ''localhost''), (''X-Cache-Redirect-To'', ''http://up/'')],
      req_body = encode_ascii ''{}''\<rparr>"

text \<open>What the cache of the handler's mode holds for a key: the snapshot file of the
  overlay in read-only mode, the row of the table otherwise (nothing when the handler has
  no connection).\<close>

definition stored :: "handler \<Rightarrow> string \<Rightarrow> world \<Rightarrow> cached option" where
  "stored h k w =
     (if file_cache_mode h = ''read'' then
        (case files w (get_file_cache_path k) of
           Some (Snapshot st hs b ts) \<Rightarrow> Some (st, hs, b)
         | _ \<Rightarrow> None)
      else if connected h then
        (case find (\<lambda>r. row_key r = k) (table w) of
           Some r \<Rightarrow> Some (row_status r, row_headers r, row_body r)
         | None \<Rightarrow> None)
      else None)"

text \<open>A sequence of \<open>_save_response\<close> calls for one key, in order.\<close>

definition put_all :: "handler \<Rightarrow> string \<Rightarrow> cached list \<Rightarrow> world \<Rightarrow> world" where
  "put_all h k ps w =
     foldl (\<lambda>w' c. case c of (st, hs, b) \<Rightarrow> save_response h k st hs b w') w ps"

definition host0 :: host where
  "host0 = \<lparr>free_port = 8080, server_ready = True\<rparr>"

definition cache0 :: request_cache where
  "cache0 = \<lparr>port = None\<rparr>"

definition client0 :: client where
  "client0 = \<lparr>base_url = ''https://api.openai.com/v1/'', custom_headers = [],
               headers_is_dict = True\<rparr>"

text \<open>Stub upstreams and worlds for the examples: an upstream answering 200 with a
  \<open>Content-Length\<close> header, one answering 500, an overlay directory that cannot be written,
  a store that holds an entry for the example request.\<close>

definition reply_ok :: upstream_response where
  "reply_ok =
     \<lparr>up_status = 200,
      up_resp_headers = [(''Content-Type'', ''text/plain''), (''Content-Length'', ''2'')],
      up_chunks = [encode_ascii ''ok'']\<rparr>"


definition world_ok :: world where
  "world_ok = world0\<lparr>upstream := (\<lambda>rq. Some reply_ok)\<rparr>"


definition key0 :: string where
  "key0 = fst (hash_request ''POST'' ''/v1/thing'' (encode_ascii ''{}'') ''http://up/'')"

definition key_str0 :: string where
  "key_str0 = snd (hash_request ''POST'' ''/v1/thing'' (encode_ascii ''{}'') ''http://up/'')"




definition world_hit :: world where
  "world_hit =
     world0\<lparr>table := [\<lparr>row_key = key0, row_status = 200,
                          row_headers = [(''Content-Length'', ''999''),
                                         (''Content-Type'', ''text/plain'')],
                          row_body = encode_ascii ''ok'', created_at = 0\<rparr>]\<rparr>"

section \<open>Properties\<close>

subsection \<open>Key derivation\<close>

lemma sorted_request_data:
  "sort_key fst (request_data m p b r) =
     [(''body'', if b \<noteq> [] then decode_utf8_ignore b else []),
      (''method'', codepoints_of m),
      (''path'', codepoints_of p),
      (''redirect_url'', codepoints_of r)]"
  by (simp add: request_data_def sort_key_def less_eq_char_def less_char_def)

lemma inj_fst_request_data: "inj_on fst (set (request_data m p b r))"
  by (simp add: request_data_def inj_on_def)

lemma sort_key_permuted:
  assumes "mset d = mset (request_data m p b r)"
  shows "sort_key fst d = sort_key fst (request_data m p b r)"
proof (rule sort_key_inj_key_eq)
  show "mset d = mset (sort_key fst (request_data m p b r))"
    using assms by simp
  have "set d = set (request_data m p b r)"
    using assms by (rule mset_eq_setD)
  then show "inj_on fst (set d)"
    by (simp add: inj_fst_request_data)
  show "sorted (map fst (sort_key fst (request_data m p b r)))"
    by (rule sorted_sort_key)
qed

text \<open>The digest of \<open>abc\<close>, the first test vector of the standard.\<close>

lemma sha256_abc:
  "sha256_hexdigest (encode_ascii ''abc'')
     = ''ba7816bf8f01cfea414140de5dae2223b00361a396177a9cb410ff61f20015ad''"
  by code_simp

text \<open>
  Claim C4. The key and the canonical string are a function of the method, the path with
  its query, the body and the redirect target alone: \<open>hash_request\<close> takes nothing else
  (no handler, no clock, no environment). The fields are serialised in the order of their
  names, \<open>body\<close>, \<open>method\<close>, \<open>path\<close>, \<open>redirect_url\<close>, so a dict holding the same four
  fields in any other insertion order (\<open>d\<close>) gives the same key and the same string, and
  the key is the SHA-256 hex digest of that string.
\<close>

theorem hash_request_deterministic:
  assumes "mset d = mset (request_data m p b r)"
  shows "hash_fields d = hash_request m p b r
       \<and> snd (hash_request m p b r) =
           ''{'' @ json_item (''body'', if b \<noteq> [] then decode_utf8_ignore b else [])
             @ '', '' @ json_item (''method'', codepoints_of m)
             @ '', '' @ json_item (''path'', codepoints_of p)
             @ '', '' @ json_item (''redirect_url'', codepoints_of r) @ ''}''
       \<and> fst (hash_request m p b r)
           = sha256_hexdigest (encode_ascii (snd (hash_request m p b r)))"
proof (intro conjI)
  show "hash_fields d = hash_request m p b r"
    using sort_key_permuted [OF assms]
    by (simp add: hash_request_def hash_fields_def json_dumps_sorted_def)
  show "snd (hash_request m p b r) =
           ''{'' @ json_item (''body'', if b \<noteq> [] then decode_utf8_ignore b else [])
             @ '', '' @ json_item (''method'', codepoints_of m)
             @ '', '' @ json_item (''path'', codepoints_of p)
             @ '', '' @ json_item (''redirect_url'', codepoints_of r) @ ''}''"
    by (simp add: hash_request_def hash_fields_def json_dumps_sorted_def sorted_request_data
        Let_def)
  show "fst (hash_request m p b r)
          = sha256_hexdigest (encode_ascii (snd (hash_request m p b r)))"
    by (simp add: hash_request_def hash_fields_def Let_def)
qed

theorem hash_request_deterministic_witness:
  "mset [(''path'', codepoints_of ''/v1''), (''redirect_url'', codepoints_of ''http://up''),
         (''body'', []), (''method'', codepoints_of ''GET'')]
     = mset (request_data ''GET'' ''/v1'' [] ''http://up'')
   \<and> hash_fields [(''path'', codepoints_of ''/v1''),
                   (''redirect_url'', codepoints_of ''http://up''),
                   (''body'', []), (''method'', codepoints_of ''GET'')]
     = hash_request ''GET'' ''/v1'' [] ''http://up''"
proof -
  have perm: "mset [(''path'', codepoints_of ''/v1''),
                    (''redirect_url'', codepoints_of ''http://up''),
                    (''body'', []), (''method'', codepoints_of ''GET'')]
     = mset (request_data ''GET'' ''/v1'' [] ''http://up'')"
    by (simp add: request_data_def)
  show ?thesis
    using perm hash_request_deterministic [OF perm] by simp
qed

subsection \<open>The routing header\<close>

text \<open>
  Claim C8. A request without the routing header (no header named
  \<open>X-Cache-Redirect-To\<close> in any case) is answered 400 with the body
  \<open>Missing X-Cache-Redirect-To header\<close>, and the world is left as it was: the trace
  gains no step (no key derived, no store or overlay read or written, nothing forwarded).
\<close>

theorem missing_routing_header_400:
  assumes "md_get (req_headers rq) ''X-Cache-Redirect-To'' = None"
  shows "handle_request h rq w =
           (Inr (Response \<lparr>status = 400, headers = [],
                             body = encode_ascii ''Missing X-Cache-Redirect-To header''\<rparr>), w)"
  using assms by (simp add: handle_request_def bad_request_def)

theorem missing_routing_header_400_witness:
  "md_get (req_headers (request0\<lparr>req_headers := [(''Host'', ''localhost'')]\<rparr>))
       ''X-Cache-Redirect-To'' = None
   \<and> handle_request handler0 (request0\<lparr>req_headers := [(''Host'', ''localhost'')]\<rparr>) world0 =
           (Inr (Response \<lparr>status = 400, headers = [],
                             body = encode_ascii ''Missing X-Cache-Redirect-To header''\<rparr>), world0)"
proof -
  have h: "md_get (req_headers (request0\<lparr>req_headers := [(''Host'', ''localhost'')]\<rparr>))
       ''X-Cache-Redirect-To'' = None"
    by (simp add: lower_def lower_char_def)
  show ?thesis using h missing_routing_header_400 [OF h] by simp
qed

subsection \<open>The overlay toggle\<close>

text \<open>
  Claim C9, as the code has it. The value of \<open>FILE_CACHE\<close> is lowercased before it is
  checked: the constructor raises the configuration error exactly when the lowercased
  value is none of the empty string, \<open>read\<close> and \<open>write\<close>.
\<close>

theorem init_handler_toggle:
  "(\<exists>msg. init_handler w = Inl (ValueError msg))
     = (lower (getenv w ''FILE_CACHE'' []) \<notin> set [[], ''read'', ''write''])"
  by (auto simp: init_handler_def Let_def split: option.splits)

text \<open>The value \<open>READ\<close> is none of the three values the claim lists, and the handler is
  constructed, in read-only mode.\<close>

theorem init_handler_accepts_uppercase:
  "''READ'' \<notin> set [[], ''read'', ''write'']
   \<and> init_handler (world0\<lparr>environ := [''FILE_CACHE'' \<mapsto> ''READ'']\<rparr>)
       = Inr \<lparr>connected = False, file_cache_mode = ''read''\<rparr>"
  by code_simp

subsection \<open>The persistent store\<close>

lemma find_after_replace:
  "find (\<lambda>r. row_key r = k) (filter (\<lambda>r. row_key r \<noteq> k) xs @ [x])
     = (if row_key x = k then Some x else None)"
  by (induction xs) auto

lemma get_after_save:
  "connected h \<Longrightarrow>
   fst (get_cached_response h k (save_response h k st hs b w)) = Some (st, hs, b)"
  by (simp add: get_cached_response_def save_response_def log_event_def find_after_replace)

lemma one_row_after_save:
  "connected h \<Longrightarrow>
   length (filter (\<lambda>r. row_key r = k) (table (save_response h k st hs b w))) = 1"
  by (simp add: save_response_def log_event_def)

lemma other_rows_after_save:
  "k' \<noteq> k \<Longrightarrow>
   filter (\<lambda>r. row_key r = k') (table (save_response h k st hs b w))
     = filter (\<lambda>r. row_key r = k') (table w)"
  by (auto simp: save_response_def log_event_def intro!: filter_cong)

lemma put_all_snoc:
  "put_all h k (ps @ [(st, hs, b)]) w = save_response h k st hs b (put_all h k ps w)"
  by (simp add: put_all_def)

text \<open>
  Claim C6. On a handler with a connection, after any non-empty sequence of
  \<open>_save_response\<close> calls for a key, \<open>_get_cached_response\<close> answers the status, headers
  and body of the last call, and the table holds exactly one row of that key.
\<close>

theorem put_insert_or_replace:
  assumes "connected h" and "ps \<noteq> []"
  shows "fst (get_cached_response h k (put_all h k ps w)) = Some (last ps)
       \<and> length (filter (\<lambda>r. row_key r = k) (table (put_all h k ps w))) = 1"
proof -
  obtain qs st hs b where ps: "ps = qs @ [(st, hs, b)]"
    using assms(2) by (metis rev_exhaust prod_cases3)
  show ?thesis
    using assms(1) by (simp add: ps put_all_snoc get_after_save one_row_after_save)
qed

theorem put_insert_or_replace_witness:
  "connected handler0
   \<and> [(200, [], []), (201, [(''a'', ''b'')], [1])] \<noteq> ([] :: cached list)
   \<and> fst (get_cached_response handler0 ''k''
            (put_all handler0 ''k'' [(200, [], []), (201, [(''a'', ''b'')], [1])] world0))
       = Some (201, [(''a'', ''b'')], [1])"
proof -
  have h1: "connected handler0" by (simp add: handler0_def)
  have h2: "[(200, [], []), (201, [(''a'', ''b'')], [1])] \<noteq> ([] :: cached list)" by simp
  show ?thesis
    using h1 h2 put_insert_or_replace [OF h1 h2, of "''k''" world0] by simp
qed

subsection \<open>The client hook\<close>

lemma dict_set_mem: "(k, v) \<in> set (dict_set k v d)"
  by (induction d) auto

lemma dict_set_key: "k \<in> fst ` set (dict_set k v d)"
  using dict_set_mem [of k v d] by force

lemma map_of_dict_set: "map_of (dict_set k v d) k = Some v"
  by (induction d) auto

lemma dict_set_fresh: "k \<notin> fst ` set d \<Longrightarrow> dict_set k v d = d @ [(k, v)]"
  by (induction d) auto

text \<open>
  Claim C7. On a machine where the server comes up, for a client whose headers are a
  dict without the header \<open>X-Cache-Redirect-To\<close>: the first call of the hook succeeds,
  appends that header with the client's endpoint as its value and sets the endpoint to
  \<open>http://localhost:\<close>, the port of the server in decimal and \<open>/\<close> (the port is the one
  the \<open>RequestCache\<close> held, or else the free port it was given); a second call (on any
  machine state) succeeds too and leaves the client and the \<open>RequestCache\<close> as the first
  call left them.
\<close>

theorem hook_openai_idempotent:
  assumes ready: "server_ready m"
    and fresh: "''X-Cache-Redirect-To'' \<notin> set (map fst (custom_headers c))"
    and dict: "headers_is_dict c"
    and first: "hook_openai m rc c = (e1, rc1, c1)"
    and second: "hook_openai m2 rc1 c1 = (e2, rc2, c2)"
  shows "e1 = None \<and> e2 = None \<and> rc2 = rc1 \<and> c2 = c1
       \<and> port rc1 = Some (case port rc of None \<Rightarrow> free_port m | Some q \<Rightarrow> q)
       \<and> base_url c1
           = ''http://localhost:''
               @ str_of_nat (case port rc of None \<Rightarrow> free_port m | Some q \<Rightarrow> q) @ ''/''
       \<and> custom_headers c1 = custom_headers c @ [(''X-Cache-Redirect-To'', base_url c)]
       \<and> map_of (custom_headers c1) ''X-Cache-Redirect-To'' = Some (base_url c)
       \<and> headers_is_dict c1 = headers_is_dict c"
proof -
  let ?p = "case port rc of None \<Rightarrow> free_port m | Some q \<Rightarrow> q"
  have fresh': "REDIRECT_HEADER \<notin> set (map fst (custom_headers c))"
    using fresh by (simp add: REDIRECT_HEADER_def)
  have p: "start_idempotently m rc = (None, rc1)" "port rc1 = Some ?p"
    using ready first
    by (auto simp: hook_openai_def start_idempotently_def Let_def
        split: option.splits if_splits prod.splits)
  have c1: "e1 = None"
      "c1 = c\<lparr>custom_headers := dict_set REDIRECT_HEADER (base_url c) (custom_headers c),
               base_url := proxy_url ?p\<rparr>"
    using first fresh' dict p by (auto simp: hook_openai_def)
  have again: "start_idempotently m2 rc1 = (None, rc1)"
    using p(2) by (simp add: start_idempotently_def)
  have marked: "REDIRECT_HEADER \<in> set (map fst (custom_headers c1))"
    by (simp add: c1(2) dict_set_key)
  have "hook_openai m2 rc1 c1 = (None, rc1, c1)"
    using again p(2) marked by (simp add: hook_openai_def c1(2))
  with second have "e2 = None" "rc2 = rc1" "c2 = c1" by simp_all
  moreover have "map_of (custom_headers c1) ''X-Cache-Redirect-To'' = Some (base_url c)"
    using map_of_dict_set [of REDIRECT_HEADER "base_url c" "custom_headers c"]
    by (simp add: c1(2) REDIRECT_HEADER_def)
  moreover have "custom_headers c1 = custom_headers c @ [(''X-Cache-Redirect-To'', base_url c)]"
    using dict_set_fresh [of REDIRECT_HEADER "custom_headers c" "base_url c"] fresh'
    by (simp add: c1(2) REDIRECT_HEADER_def)
  moreover have "base_url c1 = ''http://localhost:'' @ str_of_nat ?p @ ''/''"
    by (simp add: c1(2) proxy_url_def)
  moreover have "headers_is_dict c1 = headers_is_dict c"
    by (simp add: c1(2))
  ultimately show ?thesis using c1(1) p(2) by simp
qed

lemma proxy_url_8080: "proxy_url 8080 = ''http://localhost:8080/''"
  by (simp add: proxy_url_def str_of_nat.simps digit_char_def char_of_def bit_Suc_0_iff)

theorem hook_openai_idempotent_witness:
  "server_ready host0
   \<and> ''X-Cache-Redirect-To'' \<notin> set (map fst (custom_headers client0))
   \<and> headers_is_dict client0
   \<and> hook_openai host0 cache0 client0
       = (None, \<lparr>port = Some 8080\<rparr>,
          \<lparr>base_url = ''http://localhost:8080/'',
           custom_headers = [(''X-Cache-Redirect-To'', ''https://api.openai.com/v1/'')],
           headers_is_dict = True\<rparr>)
   \<and> hook_openai host0 \<lparr>port = Some 8080\<rparr>
         \<lparr>base_url = ''http://localhost:8080/'',
          custom_headers = [(''X-Cache-Redirect-To'', ''https://api.openai.com/v1/'')],
          headers_is_dict = True\<rparr>
       = (None, \<lparr>port = Some 8080\<rparr>,
          \<lparr>base_url = ''http://localhost:8080/'',
           custom_headers = [(''X-Cache-Redirect-To'', ''https://api.openai.com/v1/'')],
           headers_is_dict = True\<rparr>)"
proof -
  have h1: "server_ready host0" by (simp add: host0_def)
  have h2: "''X-Cache-Redirect-To'' \<notin> set (map fst (custom_headers client0))"
    by (simp add: client0_def)
  have h3: "headers_is_dict client0" by (simp add: client0_def)
  have first: "hook_openai host0 cache0 client0
       = (None, \<lparr>port = Some 8080\<rparr>,
          \<lparr>base_url = ''http://localhost:8080/'',
           custom_headers = [(''X-Cache-Redirect-To'', ''https://api.openai.com/v1/'')],
           headers_is_dict = True\<rparr>)"
    by (simp add: hook_openai_def start_idempotently_def host0_def cache0_def client0_def
        REDIRECT_HEADER_def proxy_url_8080)
  have second: "hook_openai host0 \<lparr>port = Some 8080\<rparr>
         \<lparr>base_url = ''http://localhost:8080/'',
          custom_headers = [(''X-Cache-Redirect-To'', ''https://api.openai.com/v1/'')],
          headers_is_dict = True\<rparr>
       = (None, \<lparr>port = Some 8080\<rparr>,
          \<lparr>base_url = ''http://localhost:8080/'',
           custom_headers = [(''X-Cache-Redirect-To'', ''https://api.openai.com/v1/'')],
           headers_is_dict = True\<rparr>)"
    by (simp add: hook_openai_def start_idempotently_def REDIRECT_HEADER_def proxy_url_8080)
  note used = hook_openai_idempotent [OF h1 h2 h3 first second]
  show ?thesis
    using h1 h2 h3 first second used by blast
qed

subsection \<open>Dictionaries and headers\<close>

lemma dict_set_subset: "set (dict_set k v d) \<subseteq> insert (k, v) (set d)"
  by (induction d) (auto split: if_splits)

lemma dict_fold_subset:
  "set (foldl (\<lambda>d (k, v). dict_set k v d) acc xs) \<subseteq> set acc \<union> set xs"
proof (induction xs arbitrary: acc)
  case Nil
  then show ?case by simp
next
  case (Cons x xs)
  obtain k v where x: "x = (k, v)" by (cases x)
  have "set (foldl (\<lambda>d (k, v). dict_set k v d) (dict_set k v acc) xs)
          \<subseteq> set (dict_set k v acc) \<union> set xs"
    by (rule Cons.IH)
  also have "\<dots> \<subseteq> insert (k, v) (set acc) \<union> set xs"
    using dict_set_subset [of k v acc] by auto
  finally show ?case by (auto simp: x)
qed

lemma dict_of_items_subset: "set (dict_of_items xs) \<subseteq> set xs"
  using dict_fold_subset [of "[]" xs] by (simp add: dict_of_items_def)

lemma strip_framing_clean:
  "kv \<in> set (strip_framing hs) \<Longrightarrow> lower (fst kv) \<notin> set framing_headers \<and> kv \<in> set hs"
  using dict_of_items_subset [of "filter (\<lambda>kv. lower (fst kv) \<notin> set framing_headers) hs"]
  by (auto simp: strip_framing_def)

lemma md_set_subset: "set (md_set k v h) \<subseteq> insert (k, v) (set h)"
  by (induction h) (auto split: if_splits)

lemma md_fold_subset:
  "set (foldl (\<lambda>h kv. md_set (fst kv) (snd kv) h) acc xs) \<subseteq> set acc \<union> set xs"
proof (induction xs arbitrary: acc)
  case Nil
  then show ?case by simp
next
  case (Cons x xs)
  have "set (foldl (\<lambda>h kv. md_set (fst kv) (snd kv) h) (md_set (fst x) (snd x) acc) xs)
          \<subseteq> set (md_set (fst x) (snd x) acc) \<union> set xs"
    by (rule Cons.IH)
  also have "\<dots> \<subseteq> insert x (set acc) \<union> set xs"
    using md_set_subset [of "fst x" "snd x" acc] by auto
  finally show ?case by auto
qed

lemma copied_headers_clean:
  "kv \<in> set (copied_headers r) \<Longrightarrow>
     lower (fst kv) \<notin> set framing_headers \<and> kv \<in> set (up_resp_headers r)"
  using md_fold_subset [of "[]" "strip_framing (up_resp_headers r)"]
    strip_framing_clean [of kv "up_resp_headers r"]
  by (auto simp: copied_headers_def)

lemma dict_set_keys:
  "map fst (dict_set k v d) = (if k \<in> set (map fst d) then map fst d else map fst d @ [k])"
  by (induction d) (force simp: image_iff)+

lemma dict_set_names: "fst ` set (dict_set k v d) = insert k (fst ` set d)"
proof -
  have "set (map fst (dict_set k v d)) = insert k (set (map fst d))"
    unfolding dict_set_keys by auto
  then show ?thesis by simp
qed

lemma dict_fold_names:
  "fst ` set (foldl (\<lambda>d (k, v). dict_set k v d) acc xs) = fst ` set acc \<union> fst ` set xs"
proof (induction xs arbitrary: acc)
  case Nil
  then show ?case by simp
next
  case (Cons x xs)
  obtain k v where x: "x = (k, v)" by (cases x)
  show ?case
    by (simp add: x Cons.IH dict_set_names)
qed

lemma strip_framing_names:
  "fst ` set (strip_framing hs)
     = {k \<in> fst ` set hs. lower k \<notin> set framing_headers}"
  by (force simp: strip_framing_def dict_of_items_def dict_fold_names)

lemma md_set_names:
  "lower ` fst ` set (md_set k v h) = insert (lower k) (lower ` fst ` set h)"
proof (induction h)
  case Nil
  then show ?case by simp
next
  case (Cons x h)
  show ?case
  proof (cases "lower (fst x) = lower k")
    case True
    have "lower ` fst ` set (filter (\<lambda>kv. lower (fst kv) \<noteq> lower k) h)
            \<subseteq> lower ` fst ` set h"
      by auto
    moreover have "lower ` fst ` set h
            \<subseteq> insert (lower k) (lower ` fst ` set (filter (\<lambda>kv. lower (fst kv) \<noteq> lower k) h))"
      by force
    ultimately show ?thesis
      using True by (cases x) auto
  next
    case False
    then show ?thesis
      using Cons.IH by (cases x) auto
  qed
qed

lemma md_fold_names:
  "lower ` fst ` set (foldl (\<lambda>h kv. md_set (fst kv) (snd kv) h) acc xs)
     = lower ` fst ` set acc \<union> lower ` fst ` set xs"
proof (induction xs arbitrary: acc)
  case Nil
  then show ?case by simp
next
  case (Cons x xs)
  show ?case
    by (simp add: Cons.IH md_set_names)
qed

lemma copied_headers_names:
  "lower ` fst ` set (copied_headers r)
     = {n \<in> lower ` fst ` set (up_resp_headers r). n \<notin> set framing_headers}"
proof -
  have "lower ` fst ` set (copied_headers r) = lower ` fst ` set (strip_framing (up_resp_headers r))"
    by (simp add: copied_headers_def md_fold_names)
  also have "\<dots> = lower ` {k \<in> fst ` set (up_resp_headers r). lower k \<notin> set framing_headers}"
    by (simp add: strip_framing_names)
  also have "\<dots> = {n \<in> lower ` fst ` set (up_resp_headers r). n \<notin> set framing_headers}"
    by blast
  finally show ?thesis .
qed

subsection \<open>The paths of the handler\<close>

lemma log_event_fields [simp]:
  "table (log_event e w) = table w" "files (log_event e w) = files w"
  "upstream (log_event e w) = upstream w" "environ (log_event e w) = environ w"
  "prepare_headers (log_event e w) = prepare_headers w"
  "clock (log_event e w) = clock w" "stdout (log_event e w) = stdout w"
  "mkdir_error (log_event e w) = mkdir_error w" "write_error (log_event e w) = write_error w"
  "github_output (log_event e w) = github_output w"
  "trace (log_event e w) = trace w @ [e]"
  by (simp_all add: log_event_def)

lemma print_line_fields [simp]:
  "table (print_line l w) = table w" "files (print_line l w) = files w"
  "upstream (print_line l w) = upstream w" "environ (print_line l w) = environ w"
  "prepare_headers (print_line l w) = prepare_headers w"
  "clock (print_line l w) = clock w" "stdout (print_line l w) = stdout w @ [l]"
  "mkdir_error (print_line l w) = mkdir_error w" "write_error (print_line l w) = write_error w"
  "github_output (print_line l w) = github_output w"
  "trace (print_line l w) = trace w"
  by (simp_all add: print_line_def)

lemma save_response_fields [simp]:
  "mkdir_error (save_response h k st hs b w) = mkdir_error w"
  "write_error (save_response h k st hs b w) = write_error w"
  "files (save_response h k st hs b w) = files w"
  "stdout (save_response h k st hs b w) = stdout w"
  "clock (save_response h k st hs b w) = clock w"
  by (simp_all add: save_response_def)

lemma relayed_log_event [simp]: "relayed (log_event e w) rq r = relayed w rq r"
  by (simp add: relayed_def)

lemma stored_log_event [simp]: "stored h k (log_event e w) = stored h k w"
  by (simp add: stored_def)

lemma stored_trace_update [simp]: "stored h k (w\<lparr>trace := t\<rparr>) = stored h k w"
  by (simp add: stored_def)

lemma fst_get_file:
  "fst (get_file_cached_response k w) =
     (case files w (get_file_cache_path k) of
        None \<Rightarrow> Inr None
      | Some (Snapshot st hs b ts) \<Rightarrow> Inr (Some (st, hs, b))
      | Some (Malformed e) \<Rightarrow> Inr None
      | Some (Faulty e) \<Rightarrow> Inl e)"
  by (simp add: get_file_cached_response_def Let_def
      split: option.splits overlay_file.splits)

lemma fst_get_cached:
  "fst (get_cached_response h k w) =
     (if connected h then
        (case find (\<lambda>r. row_key r = k) (table w) of
           Some r \<Rightarrow> Some (row_status r, row_headers r, row_body r)
         | None \<Rightarrow> None)
      else None)"
  by (simp add: get_cached_response_def split: option.splits)

lemma miss_filter:
  assumes "connected h" "file_cache_mode h \<noteq> ''read''" "stored h key w = None"
  shows "filter (\<lambda>r. row_key r \<noteq> key) (table w) = table w"
proof -
  have "find (\<lambda>r. row_key r = key) (table w) = None"
    using assms by (simp add: stored_def split: option.splits)
  then show ?thesis
    by (simp add: find_None_iff filter_id_conv)
qed

lemma find_snoc_new:
  "find P xs = None \<Longrightarrow> P x \<Longrightarrow> find P (xs @ [x]) = Some x"
  by (induction xs) (auto split: if_splits)

lemma save_file_table:
  assumes "mkdir_error w True = None"
  shows "\<exists>w5. save_file_cached_response k st hs b w = Inr w5 \<and> table w5 = table w"
  using assms by (simp add: save_file_cached_response_def Let_def split: option.splits)

lemma handle_request_read:
  assumes mode: "file_cache_mode h = ''read''"
    and hdr: "md_get (req_headers rq) ''X-Cache-Redirect-To'' = Some u" and u: "u \<noteq> []"
    and key: "hash_request (req_method rq) (path_qs rq) (req_body rq) u = (key, key_str)"
  shows "handle_request h rq w =
     (case get_file_cached_response key (log_event (KeyDerived key) w) of
        (Inl e, w2) \<Rightarrow> (Inl e, w2)
      | (Inr (Some c), w2) \<Rightarrow> (Inr (replay c), w2)
      | (Inr None, w2) \<Rightarrow> report_miss (miss_message key key_str) w2)"
  using assms
  by (simp add: handle_request_def Let_def split: prod.splits option.splits sum.splits)

lemma handle_request_standard:
  assumes mode: "file_cache_mode h \<noteq> ''read''"
    and hdr: "md_get (req_headers rq) ''X-Cache-Redirect-To'' = Some u" and u: "u \<noteq> []"
    and key: "hash_request (req_method rq) (path_qs rq) (req_body rq) u = (key, key_str)"
  shows "handle_request h rq w =
     (case get_cached_response h key (log_event (KeyDerived key) w) of
        (Some c, w2) \<Rightarrow> (Inr (replay c), w2)
      | (None, w2) \<Rightarrow>
          (case forward_request (req_method rq) (path_qs rq)
                  (dict_of_multidict (req_headers rq)) (req_body rq) u rq w2 of
             (Inl e, w3) \<Rightarrow> (Inl e, w3)
           | (Inr (stream_response, status_code, hdrs, response_body), w3) \<Rightarrow>
               if 200 \<le> status_code \<and> status_code < 300 then
                 (let w4 = save_response h key status_code hdrs response_body w3
                  in if file_cache_mode h = ''write'' then
                       (case save_file_cached_response key status_code hdrs response_body w4 of
                          Inl e \<Rightarrow> (Inl e, w4)
                        | Inr w5 \<Rightarrow> (Inr (StreamResponse stream_response), w5))
                     else (Inr (StreamResponse stream_response), w4))
               else (Inr (StreamResponse stream_response), w3)))"
  using assms
  by (simp add: handle_request_def Let_def split: prod.splits option.splits sum.splits)

lemma handle_request_hit:
  assumes hdr: "md_get (req_headers rq) ''X-Cache-Redirect-To'' = Some u" and u: "u \<noteq> []"
    and key: "hash_request (req_method rq) (path_qs rq) (req_body rq) u = (key, key_str)"
    and hit: "stored h key w = Some c"
  shows "fst (handle_request h rq w) = Inr (replay c)"
proof (cases "file_cache_mode h = ''read''")
  case True
  have "fst (get_file_cached_response key (log_event (KeyDerived key) w)) = Inr (Some c)"
    using hit True
    by (auto simp: stored_def fst_get_file split: option.splits overlay_file.splits)
  then show ?thesis
    unfolding handle_request_read [OF True hdr u key]
    by (simp add: case_prod_beta)
next
  case False
  have "fst (get_cached_response h key (log_event (KeyDerived key) w)) = Some c"
    using hit False by (auto simp: stored_def fst_get_cached split: if_splits)
  then show ?thesis
    unfolding handle_request_standard [OF False hdr u key]
    by (simp add: case_prod_beta)
qed

lemma handle_request_forwarded:
  assumes mode: "file_cache_mode h \<noteq> ''read''"
    and hdr: "md_get (req_headers rq) ''X-Cache-Redirect-To'' = Some u" and u: "u \<noteq> []"
    and key: "hash_request (req_method rq) (path_qs rq) (req_body rq) u = (key, key_str)"
    and miss: "stored h key w = None"
    and up: "upstream w (outbound (req_method rq) (path_qs rq)
               (dict_of_multidict (req_headers rq)) (req_body rq) u) = Some r"
  shows "handle_request h rq w =
     (let w3 = log_event (Forwarded (outbound (req_method rq) (path_qs rq)
                  (dict_of_multidict (req_headers rq)) (req_body rq) u))
                 (if connected h then log_event (StoreRead key) (log_event (KeyDerived key) w)
                  else log_event (KeyDerived key) w)
      in if 200 \<le> up_status r \<and> up_status r < 300 then
           (let w4 = save_response h key (up_status r) (dict_of_multidict (up_resp_headers r))
                       (concat (up_chunks r)) w3
            in if file_cache_mode h = ''write'' then
                 (case save_file_cached_response key (up_status r)
                         (dict_of_multidict (up_resp_headers r)) (concat (up_chunks r)) w4 of
                    Inl e \<Rightarrow> (Inl e, w4)
                  | Inr w5 \<Rightarrow> (Inr (StreamResponse (relayed w rq r)), w5))
               else (Inr (StreamResponse (relayed w rq r)), w4))
         else (Inr (StreamResponse (relayed w rq r)), w3))"
proof -
  have got: "get_cached_response h key (log_event (KeyDerived key) w)
      = (None, if connected h then log_event (StoreRead key) (log_event (KeyDerived key) w)
               else log_event (KeyDerived key) w)"
    using mode miss
    by (auto simp: stored_def get_cached_response_def split: option.splits if_splits)
  have fwd: "forward_request (req_method rq) (path_qs rq)
                  (dict_of_multidict (req_headers rq)) (req_body rq) u rq
                  (if connected h then log_event (StoreRead key) (log_event (KeyDerived key) w)
                   else log_event (KeyDerived key) w)
      = (Inr (relayed w rq r, collected r),
         log_event (Forwarded (outbound (req_method rq) (path_qs rq)
                  (dict_of_multidict (req_headers rq)) (req_body rq) u))
           (if connected h then log_event (StoreRead key) (log_event (KeyDerived key) w)
            else log_event (KeyDerived key) w))"
    using up by (simp add: forward_request_def Let_def)
  show ?thesis
    unfolding handle_request_standard [OF mode hdr u key] got
    by (simp add: fwd collected_def Let_def)
qed

lemma forwarded_outcome:
  assumes conn: "connected h" and mode: "file_cache_mode h \<noteq> ''read''"
    and hdr: "md_get (req_headers rq) ''X-Cache-Redirect-To'' = Some u" and u: "u \<noteq> []"
    and key: "hash_request (req_method rq) (path_qs rq) (req_body rq) u = (key, key_str)"
    and miss: "stored h key w = None"
    and up: "upstream w (outbound (req_method rq) (path_qs rq)
               (dict_of_multidict (req_headers rq)) (req_body rq) u) = Some r"
    and mk: "mkdir_error w True = None"
    and res: "handle_request h rq w = (res, w')"
  shows "res = Inr (StreamResponse (relayed w rq r))
       \<and> stored h key w'
           = (if 200 \<le> up_status r \<and> up_status r < 300 then Some (collected r) else None)"
proof (cases "200 \<le> up_status r \<and> up_status r < 300")
  case True
  let ?w3 = "log_event (Forwarded (outbound (req_method rq) (path_qs rq)
                  (dict_of_multidict (req_headers rq)) (req_body rq) u))
               (log_event (StoreRead key) (log_event (KeyDerived key) w))"
  let ?w4 = "save_response h key (up_status r) (dict_of_multidict (up_resp_headers r))
               (concat (up_chunks r)) ?w3"
  have nofind: "find (\<lambda>r. row_key r = key) (table w) = None"
    using conn mode miss by (simp add: stored_def split: option.splits)
  have tab4: "table ?w4 = table w @ [\<lparr>row_key = key, row_status = up_status r,
                                row_headers = dict_of_multidict (up_resp_headers r),
                                row_body = concat (up_chunks r), created_at = clock w\<rparr>]"
    using conn miss_filter [OF conn mode miss] by (simp add: save_response_def)
  have "mkdir_error ?w4 True = None" using mk by simp
  then obtain w5 where w5: "save_file_cached_response key (up_status r)
        (dict_of_multidict (up_resp_headers r)) (concat (up_chunks r)) ?w4 = Inr w5"
      "table w5 = table ?w4"
    using save_file_table by blast
  have "handle_request h rq w =
      (Inr (StreamResponse (relayed w rq r)), if file_cache_mode h = ''write'' then w5 else ?w4)"
    unfolding handle_request_forwarded [OF mode hdr u key miss up]
    using True conn w5(1) by (simp add: Let_def)
  with res have r: "res = Inr (StreamResponse (relayed w rq r))"
    and w': "w' = (if file_cache_mode h = ''write'' then w5 else ?w4)"
    by simp_all
  have "table w' = table ?w4"
    using w5(2) by (simp add: w')
  then have "stored h key w' = Some (collected r)"
    using conn mode nofind by (simp add: stored_def tab4 collected_def find_snoc_new)
  then show ?thesis using r True by simp
next
  case False
  have "handle_request h rq w =
      (Inr (StreamResponse (relayed w rq r)),
       log_event (Forwarded (outbound (req_method rq) (path_qs rq)
                  (dict_of_multidict (req_headers rq)) (req_body rq) u))
               (log_event (StoreRead key) (log_event (KeyDerived key) w)))"
    unfolding handle_request_forwarded [OF mode hdr u key miss up]
    using False conn by (auto simp: Let_def)
  with res have r: "res = Inr (StreamResponse (relayed w rq r))"
    and w': "w' = log_event (Forwarded (outbound (req_method rq) (path_qs rq)
                  (dict_of_multidict (req_headers rq)) (req_body rq) u))
               (log_event (StoreRead key) (log_event (KeyDerived key) w))"
    by simp_all
  have "stored h key w' = None" using miss by (simp add: w')
  then show ?thesis using r False by auto
qed

lemma request0_routed:
  "md_get (req_headers request0) ''X-Cache-Redirect-To'' = Some ''http://up/''"
  by (simp add: request0_def lower_def lower_char_def)

lemma request0_target: "''http://up/'' \<noteq> []"
  by simp

lemma request0_key:
  "hash_request (req_method request0) (path_qs request0) (req_body request0) ''http://up/''
     = (key0, key_str0)"
  by (simp add: request0_def key0_def key_str0_def)

lemma request0_result:
  "handle_request h request0 w
     = (fst (handle_request h request0 w), snd (handle_request h request0 w))"
  by simp

subsection \<open>Read-only replay\<close>

lemma report_miss_fields [simp]:
  "trace (snd (report_miss m w)) = trace w" "table (snd (report_miss m w)) = table w"
  "files (snd (report_miss m w)) = files w"
  by (simp_all add: report_miss_def split: option.splits)




subsection \<open>Replaying a hit\<close>

text \<open>
  Claim C5. On a hit (\<open>stored\<close>: the overlay snapshot in read-only mode, the row of the
  table otherwise) the response has the stored status and body; its headers are the
  stored ones without \<open>transfer-encoding\<close>, \<open>content-length\<close> and \<open>content-encoding\<close>
  (in any case), with \<open>Content-Length\<close> set to the length of the stored body: the only
  header of a framing name in the response is that \<open>Content-Length\<close>, and every other
  header of the response is a stored one.
\<close>

theorem replay_on_hit:
  assumes hdr: "md_get (req_headers rq) ''X-Cache-Redirect-To'' = Some u" and u: "u \<noteq> []"
    and key: "hash_request (req_method rq) (path_qs rq) (req_body rq) u = (key, key_str)"
    and hit: "stored h key w = Some (st, hs, b)"
    and res: "handle_request h rq w = (res, w')"
  shows "\<exists>hd. res = Inr (Response \<lparr>status = st, headers = hd, body = b\<rparr>)
       \<and> hd = dict_set ''Content-Length'' (str_of_nat (length b)) (strip_framing hs)
       \<and> map_of hd ''Content-Length'' = Some (str_of_nat (length b))
       \<and> (\<forall>kv \<in> set hd. lower (fst kv) \<in> set framing_headers
             \<longrightarrow> kv = (''Content-Length'', str_of_nat (length b)))
       \<and> (\<forall>kv \<in> set hd. kv \<in> set hs \<or> kv = (''Content-Length'', str_of_nat (length b)))"
proof -
  let ?hd = "dict_set ''Content-Length'' (str_of_nat (length b)) (strip_framing hs)"
  have "fst (handle_request h rq w) = Inr (replay (st, hs, b))"
    by (rule handle_request_hit [OF hdr u key hit])
  then have r: "res = Inr (Response \<lparr>status = st, headers = ?hd, body = b\<rparr>)"
    using res by (simp add: replay_def)
  have sub: "set ?hd \<subseteq> insert (''Content-Length'', str_of_nat (length b)) (set (strip_framing hs))"
    by (rule dict_set_subset)
  have each: "kv = (''Content-Length'', str_of_nat (length b))
                \<or> (lower (fst kv) \<notin> set framing_headers \<and> kv \<in> set hs)"
    if "kv \<in> set ?hd" for kv
  proof -
    from that sub have "kv = (''Content-Length'', str_of_nat (length b))
        \<or> kv \<in> set (strip_framing hs)"
      by auto
    then show ?thesis
      using strip_framing_clean [of kv hs] by auto
  qed
  have a: "\<forall>kv \<in> set ?hd. lower (fst kv) \<in> set framing_headers
             \<longrightarrow> kv = (''Content-Length'', str_of_nat (length b))"
    using each by auto
  have b: "\<forall>kv \<in> set ?hd. kv \<in> set hs \<or> kv = (''Content-Length'', str_of_nat (length b))"
    using each by auto
  show ?thesis
    using r a b by (simp add: map_of_dict_set)
qed

theorem replay_on_hit_witness:
  "md_get (req_headers request0) ''X-Cache-Redirect-To'' = Some ''http://up/''
   \<and> stored handler0 key0 world_hit
       = Some (200, [(''Content-Length'', ''999''), (''Content-Type'', ''text/plain'')],
               encode_ascii ''ok'')
   \<and> fst (handle_request handler0 request0 world_hit)
       = Inr (Response \<lparr>status = 200,
                         headers = [(''Content-Type'', ''text/plain''),
                                    (''Content-Length'', ''2'')],
                         body = encode_ascii ''ok''\<rparr>)"
proof -
  have hit: "stored handler0 key0 world_hit
       = Some (200, [(''Content-Length'', ''999''), (''Content-Type'', ''text/plain'')],
               encode_ascii ''ok'')"
    by (simp add: stored_def handler0_def world_hit_def world0_def)
  have ev: "dict_set ''Content-Length'' (str_of_nat (length (encode_ascii ''ok'')))
              (strip_framing [(''Content-Length'', ''999''), (''Content-Type'', ''text/plain'')])
            = [(''Content-Type'', ''text/plain''), (''Content-Length'', ''2'')]"
    by code_simp
  show ?thesis
    using request0_routed hit
      replay_on_hit [OF request0_routed request0_target request0_key hit request0_result]
    by (auto simp: ev)
qed

subsection \<open>Only success is cached\<close>



subsection \<open>A failing overlay write\<close>



subsection \<open>Where the framing headers are stripped\<close>

text \<open>
  Claim C3, as the code has it. For a forwarded request, the headers the forwarder copies
  from the upstream response onto the stream response hold no \<open>transfer-encoding\<close>,
  \<open>content-length\<close> or \<open>content-encoding\<close>: each of them is a header of upstream, and
  their names are, case-insensitively, the names of upstream other than these three. The
  response returned carries what \<open>prepare\<close> makes of them. The entry persisted for a 2xx
  response keeps the headers of upstream as \<open>dict(response.headers)\<close> gives them,
  unfiltered (they are filtered when the entry is replayed, see \<open>replay_on_hit\<close>).
\<close>

theorem framing_stripped_before_relay:
  assumes conn: "connected h" and mode: "file_cache_mode h \<noteq> ''read''"
    and hdr: "md_get (req_headers rq) ''X-Cache-Redirect-To'' = Some u" and u: "u \<noteq> []"
    and key: "hash_request (req_method rq) (path_qs rq) (req_body rq) u = (key, key_str)"
    and miss: "stored h key w = None"
    and up: "upstream w (outbound (req_method rq) (path_qs rq)
               (dict_of_multidict (req_headers rq)) (req_body rq) u) = Some r"
    and mk: "mkdir_error w True = None"
    and res: "handle_request h rq w = (res, w')"
  shows "res = Inr (StreamResponse
                 \<lparr>status = up_status r,
                  headers = prepare_headers w rq (up_status r) (copied_headers r),
                  body = concat (up_chunks r)\<rparr>)
       \<and> (\<forall>kv \<in> set (copied_headers r).
             lower (fst kv) \<notin> set [''transfer-encoding'', ''content-length'',
                                     ''content-encoding'']
             \<and> kv \<in> set (up_resp_headers r))
       \<and> lower ` fst ` set (copied_headers r)
           = {n \<in> lower ` fst ` set (up_resp_headers r).
                n \<notin> set [''transfer-encoding'', ''content-length'', ''content-encoding'']}
       \<and> (200 \<le> up_status r \<and> up_status r < 300 \<longrightarrow>
            stored h key w'
              = Some (up_status r, dict_of_multidict (up_resp_headers r),
                      concat (up_chunks r)))"
proof -
  have clean: "\<forall>kv \<in> set (copied_headers r).
             lower (fst kv) \<notin> set [''transfer-encoding'', ''content-length'',
                                     ''content-encoding'']
             \<and> kv \<in> set (up_resp_headers r)"
    using copied_headers_clean [of _ r] by (auto simp: framing_headers_def)
  have names: "lower ` fst ` set (copied_headers r)
           = {n \<in> lower ` fst ` set (up_resp_headers r).
                n \<notin> set [''transfer-encoding'', ''content-length'', ''content-encoding'']}"
    using copied_headers_names [of r] by (simp add: framing_headers_def)
  show ?thesis
    using forwarded_outcome [OF conn mode hdr u key miss up mk res] clean names
    by (simp add: collected_def relayed_def)
qed

theorem framing_stripped_before_relay_witness:
  "connected handler0 \<and> file_cache_mode handler0 \<noteq> ''read''
   \<and> md_get (req_headers request0) ''X-Cache-Redirect-To'' = Some ''http://up/''
   \<and> stored handler0 key0 world_ok = None
   \<and> up_resp_headers reply_ok
       = [(''Content-Type'', ''text/plain''), (''Content-Length'', ''2'')]
   \<and> copied_headers reply_ok = [(''Content-Type'', ''text/plain'')]
   \<and> fst (handle_request handler0 request0 world_ok)
       = Inr (StreamResponse
                \<lparr>status = 200,
                 headers = [(''Content-Type'', ''text/plain''),
                            (''Transfer-Encoding'', ''chunked''),
                            (''Date'', ''Thu, 01 Jan 1970 00:00:00 GMT''),
                            (''Server'', ''Python/3.12 aiohttp/3.9.5'')],
                 body = encode_ascii ''ok''\<rparr>)"
proof -
  have c: "connected handler0" by (simp add: handler0_def)
  have m: "file_cache_mode handler0 \<noteq> ''read''" by (simp add: handler0_def)
  have ms: "stored handler0 key0 world_ok = None"
    by (simp add: stored_def handler0_def world_ok_def world0_def)
  have up: "upstream world_ok (outbound (req_method request0) (path_qs request0)
         (dict_of_multidict (req_headers request0)) (req_body request0) ''http://up/'')
       = Some reply_ok"
    by (simp add: world_ok_def)
  have mk: "mkdir_error world_ok True = None" by (simp add: world_ok_def world0_def)
  have hs: "up_resp_headers reply_ok
       = [(''Content-Type'', ''text/plain''), (''Content-Length'', ''2'')]"
    by (simp add: reply_ok_def)
  have cp: "copied_headers reply_ok = [(''Content-Type'', ''text/plain'')]"
    by code_simp
  have pr: "prepare_headers world_ok request0 200 [(''Content-Type'', ''text/plain'')]
            = [(''Content-Type'', ''text/plain''),
               (''Transfer-Encoding'', ''chunked''),
               (''Date'', ''Thu, 01 Jan 1970 00:00:00 GMT''),
               (''Server'', ''Python/3.12 aiohttp/3.9.5'')]"
    by code_simp
  have st: "up_status reply_ok = 200" "concat (up_chunks reply_ok) = encode_ascii ''ok''"
    by (simp_all add: reply_ok_def)
  show ?thesis
    using c m request0_routed ms hs cp
      framing_stripped_before_relay [OF c m request0_routed request0_target request0_key
        ms up mk request0_result]
    by (simp add: pr st)
qed

theorem persisted_headers_keep_framing:
  "lower ''Content-Length'' \<in> set framing_headers
   \<and> stored handler0 key0 (snd (handle_request handler0 request0 world_ok))
       = Some (200, [(''Content-Type'', ''text/plain''), (''Content-Length'', ''2'')],
               encode_ascii ''ok'')"
proof -
  have c: "connected handler0" by (simp add: handler0_def)
  have m: "file_cache_mode handler0 \<noteq> ''read''" by (simp add: handler0_def)
  have ms: "stored handler0 key0 world_ok = None"
    by (simp add: stored_def handler0_def world_ok_def world0_def)
  have up: "upstream world_ok (outbound (req_method request0) (path_qs request0)
         (dict_of_multidict (req_headers request0)) (req_body request0) ''http://up/'')
       = Some reply_ok"
    by (simp add: world_ok_def)
  have mk: "mkdir_error world_ok True = None" by (simp add: world_ok_def world0_def)
  have st: "up_status reply_ok = 200" by (simp add: reply_ok_def)
  have ev: "collected reply_ok
      = (200, [(''Content-Type'', ''text/plain''), (''Content-Length'', ''2'')],
         encode_ascii ''ok'')"
    by code_simp
  have fr: "lower ''Content-Length'' \<in> set framing_headers"
    by code_simp
  show ?thesis
    using fr forwarded_outcome [OF c m request0_routed request0_target request0_key
        ms up mk request0_result]
    by (simp add: st ev)
qed

end
